theory Spec2Isabelle
  imports Complex_Main "HOL-Library.Word"
begin

section \<open>DmpBbo: the ModelParameters base class (ModelParameters.hpp)\<close>

text \<open>
  \<^verbatim>\<open>ModelParameters\<close> is the abstract base class of the model parameters of every
  function approximator. It derives from \<^verbatim>\<open>Parameterizable\<close>, declares four pure
  virtual member functions, gives \<^verbatim>\<open>saveGridData\<close> a default body, defines the
  stream insertion operator and the Boost serialization hook.
\<close>

subsection \<open>Objects and virtual member functions\<close>

text \<open>
  \<^verbatim>\<open>class ModelParameters : public Parameterizable\<close> has no data member of its own:
  an object consists of its \<^verbatim>\<open>Parameterizable\<close> base-class subobject and of
  whatever the concrete subclass adds. The header of \<^verbatim>\<open>Parameterizable\<close> is not
  part of the sources, so its state is the type parameter \<open>'b\<close>; the members of a
  concrete subclass are the extension part of the record
  (\<open>ModelParameters.more\<close>).
\<close>

record 'b ModelParameters =
  parameterizable :: 'b

text \<open>
  The pure virtual member functions, as a concrete subclass with objects of type \<open>'s\<close>
  implements them. All four are \<^verbatim>\<open>const\<close>, so each is a function of the object only.
  \<^verbatim>\<open>clone\<close> yields the state of the newly allocated object,
  \<^verbatim>\<open>getExpectedInputDim\<close> a C++ \<^verbatim>\<open>int\<close>, and
  \<^verbatim>\<open>toModelParametersUnified\<close> a pointer, \<open>None\<close> being \<^verbatim>\<open>NULL\<close>.
\<close>

record ('s, 'u) ModelParameters_vtable =
  clone :: "'s \<Rightarrow> 's"
  toString :: "'s \<Rightarrow> string"
  getExpectedInputDim :: "'s \<Rightarrow> int"
  toModelParametersUnified :: "'s \<Rightarrow> 'u option"

subsection \<open>What a call can affect\<close>

text \<open>
  A \<^verbatim>\<open>std::ostream\<close>, as far as the insertion of a string reads and changes it: the
  characters inserted so far, whether \<^verbatim>\<open>good()\<close> holds, the field width
  \<^verbatim>\<open>width()\<close> (a signed \<^verbatim>\<open>std::streamsize\<close>), the fill character \<^verbatim>\<open>fill()\<close>, and
  whether the adjustment field of \<^verbatim>\<open>flags()\<close> is \<^verbatim>\<open>left\<close>.
\<close>

record ostream =
  written :: string
  good :: bool
  width :: int
  fill :: char
  adjust_left :: bool

text \<open>
  The effects the documentation of the class speaks of: files saved below a directory
  (\<open>files w directory\<close> maps the names of the files in \<open>directory\<close> to their
  contents), output streams (\<open>streams w output\<close> is the stream at address
  \<open>output\<close>), and the inputs at which the response of the basis functions has been
  computed so far (\<open>evaluated w\<close>).
\<close>

record world =
  files :: "string \<Rightarrow> string \<rightharpoonup> string"
  streams :: "nat \<Rightarrow> ostream"
  evaluated :: "real list list"

subsection \<open>saveGridData\<close>

text \<open>
  \<^verbatim>\<open>virtual bool saveGridData(const Eigen::VectorXd& min, const Eigen::VectorXd& max,
    const Eigen::VectorXi& n_samples_per_dim, std::string directory,
    bool overwrite=false) const { return true; }\<close>

  The default body, which every subclass that does not override the function inherits.
  The vectors are lists (\<^verbatim>\<open>VectorXd\<close> of reals, \<^verbatim>\<open>VectorXi\<close> of integers); the
  result is the returned flag and the world after the call.
\<close>

definition saveGridData ::
  "'s \<Rightarrow> real list \<Rightarrow> real list \<Rightarrow> int list \<Rightarrow> string \<Rightarrow> bool \<Rightarrow> world \<Rightarrow> bool \<times> world" where
  "saveGridData this minv maxv n_samples_per_dim directory overwrite w = (True, w)"

subsection \<open>The stream insertion operator\<close>



subsection \<open>Serialization\<close>

text \<open>
  An archive is the sequence of items written to it: primitive data, a named value
  (what \<^verbatim>\<open>BOOST_SERIALIZATION_NVP\<close> and \<^verbatim>\<open>BOOST_SERIALIZATION_BASE_OBJECT_NVP\<close>
  produce: a name and the items of the value), and the version of a class.
\<close>

datatype item = Data string | NVP string "item list" | ClassVersion "32 word"

text \<open>
  \<^verbatim>\<open>template<class Archive>
  void serialize(Archive & ar, const unsigned int version) {
    ar & BOOST_SERIALIZATION_BASE_OBJECT_NVP(Parameterizable);
  }\<close>

  The instantiation for output archives, where \<^verbatim>\<open>&\<close> saves. How the
  \<^verbatim>\<open>Parameterizable\<close> subobject itself is saved is the business of that class, whose
  header is not among the sources: its saver is a parameter.
\<close>

definition serialize_save ::
  "('b \<Rightarrow> item list) \<Rightarrow> item list \<Rightarrow> 32 word \<Rightarrow> ('b, 'm) ModelParameters_scheme \<Rightarrow> item list" where
  "serialize_save save_Parameterizable ar version this =
     ar @ [NVP ''Parameterizable'' (save_Parameterizable (parameterizable this))]"

text \<open>
  \<^verbatim>\<open>BOOST_CLASS_IMPLEMENTATION(DmpBbo::ModelParameters,
    boost::serialization::object_serializable);\<close>

  The implementation levels of Boost.Serialization, and the one the header registers
  for the class. An archive that saves an object of a class first writes the class
  information (the version) when the level is \<^verbatim>\<open>object_class_info\<close>, and only calls
  \<^verbatim>\<open>serialize\<close> at \<^verbatim>\<open>object_serializable\<close>. The header sets no
  \<^verbatim>\<open>BOOST_CLASS_VERSION\<close>, so the version of the class is 0.
\<close>

datatype implementation_level =
  not_serializable | primitive_type | object_serializable | object_class_info

definition ModelParameters_implementation_level :: implementation_level where
  "ModelParameters_implementation_level = object_serializable"

definition ModelParameters_version :: "32 word" where
  "ModelParameters_version = 0"

definition class_information :: "implementation_level \<Rightarrow> 32 word \<Rightarrow> item list" where
  "class_information level version =
     (if level = object_class_info then [ClassVersion version] else [])"

definition save_ModelParameters ::
  "('b \<Rightarrow> item list) \<Rightarrow> item list \<Rightarrow> ('b, 'm) ModelParameters_scheme \<Rightarrow> item list" where
  "save_ModelParameters save_Parameterizable ar this =
     serialize_save save_Parameterizable
       (ar @ class_information ModelParameters_implementation_level ModelParameters_version)
       ModelParameters_version this"

section \<open>Concrete subclasses\<close>

text \<open>
  No concrete subclass is among the sources. What the properties below need of one is
  modelled from the specification of the interface.
\<close>

text \<open>
  Modelled from the spec: the bodies of the pure virtual member functions
  \<^verbatim>\<open>clone\<close>, \<^verbatim>\<open>toString\<close>, \<^verbatim>\<open>getExpectedInputDim\<close> and
  \<^verbatim>\<open>toModelParametersUnified\<close>, which only concrete subclasses define, are missing.
  The spec: \<^verbatim>\<open>clone\<close> "returns a deep copy"; \<^verbatim>\<open>toString\<close> "produces a
  deterministic, human-readable representation of current parameter values";
  \<^verbatim>\<open>getExpectedInputDim\<close> "returns the fixed input dimensionality this parameter set
  was fit for"; the conversion "returns an empty/absent result when the concrete
  subclass has no such projection defined". A subclass is given by its rendering, by
  the number of input dimensions of an object, and by its projection to the unified
  representation, if it has one.
\<close>

definition concrete_subclass ::
  "('s \<Rightarrow> string) \<Rightarrow> ('s \<Rightarrow> nat) \<Rightarrow> ('s \<Rightarrow> 'u) option \<Rightarrow> ('s, 'u) ModelParameters_vtable" where
  "concrete_subclass render input_dim projection =
     \<lparr>clone = (\<lambda>this. this),
      toString = render,
      getExpectedInputDim = (\<lambda>this. int (input_dim this)),
      toModelParametersUnified =
        (\<lambda>this. case projection of None \<Rightarrow> None | Some f \<Rightarrow> Some (f this))\<rparr>"

text \<open>
  Modelled from the spec: a call \<^verbatim>\<open>p->clone()\<close> through a pointer; the allocating
  body is in the subclasses, which are missing. The spec: "cloned copies are
  independently owned by whoever calls clone()", and clone "must never return an
  aliased/shared object". The heap is the list of the live objects, a pointer is an
  index into it, and the clone is allocated at the first free address. A pointer to no
  live object gives \<open>None\<close>.
\<close>

definition clone_object ::
  "('s, 'u) ModelParameters_vtable \<Rightarrow> nat \<Rightarrow> 's list \<Rightarrow> (nat \<times> 's list) option" where
  "clone_object cls p heap =
     (if p < length heap then Some (length heap, heap @ [clone cls (heap ! p)]) else None)"

section \<open>Properties of the code in the header\<close>

text \<open>
  In the examples below an object of the subclass is a pair of its rendering and its
  input dimension, the directory is \<open>''grid''\<close>, and the world starts with no file and
  nothing evaluated.
\<close>

subsection \<open>saveGridData\<close>

text \<open>
  C1, as the code has it. The claim asks that a call whose \<open>min\<close>, \<open>max\<close> or
  \<open>n_samples_per_dim\<close> has a length other than \<^verbatim>\<open>getExpectedInputDim()\<close> be
  reported as a failure and write nothing. The default body writes nothing indeed, but
  it checks no length: such a call returns true.
\<close>

theorem saveGridData_mismatch_unreported:
  assumes "int (length minv) \<noteq> getExpectedInputDim cls this \<or>
           int (length maxv) \<noteq> getExpectedInputDim cls this \<or>
           int (length n_samples_per_dim) \<noteq> getExpectedInputDim cls this"
  shows "fst (saveGridData this minv maxv n_samples_per_dim directory overwrite w) = True \<and>
         files (snd (saveGridData this minv maxv n_samples_per_dim directory overwrite w)) = files w"
  unfolding saveGridData_def by simp

theorem saveGridData_mismatch_unreported_witness:
  "int (length [0::real]) \<noteq>
     getExpectedInputDim
       \<lparr>clone = id, toString = fst, getExpectedInputDim = snd,
        toModelParametersUnified = (\<lambda>this. None :: unit option)\<rparr> (''lwr'', 2::int) \<and>
   fst (saveGridData (''lwr'', 2::int) [0] [1, 1] [3, 3] ''grid'' False
          \<lparr>files = (\<lambda>directory. Map.empty), streams = (\<lambda>output. \<lparr>written = '''', good = True, width = 0, fill = CHR '' '', adjust_left = False\<rparr>), evaluated = []\<rparr>) = True \<and>
   files (snd (saveGridData (''lwr'', 2::int) [0] [1, 1] [3, 3] ''grid'' False
          \<lparr>files = (\<lambda>directory. Map.empty), streams = (\<lambda>output. \<lparr>written = '''', good = True, width = 0, fill = CHR '' '', adjust_left = False\<rparr>), evaluated = []\<rparr>)) ''grid''
     = Map.empty"
proof -
  let ?cls = "\<lparr>clone = id, toString = fst, getExpectedInputDim = snd,
        toModelParametersUnified = (\<lambda>this. None :: unit option)\<rparr> :: (string \<times> int, unit) ModelParameters_vtable"
  have mismatch: "int (length [0::real]) \<noteq> getExpectedInputDim ?cls (''lwr'', 2::int)"
    by simp
  then have "int (length [0::real]) \<noteq> getExpectedInputDim ?cls (''lwr'', 2) \<or>
           int (length [1::real, 1]) \<noteq> getExpectedInputDim ?cls (''lwr'', 2) \<or>
           int (length [3::int, 3]) \<noteq> getExpectedInputDim ?cls (''lwr'', 2)"
    by simp
  from saveGridData_mismatch_unreported [OF this, of "''grid''" False
     "\<lparr>files = (\<lambda>directory. Map.empty), streams = (\<lambda>output. \<lparr>written = '''', good = True, width = 0, fill = CHR '' '', adjust_left = False\<rparr>), evaluated = []\<rparr>"] mismatch
  show ?thesis by simp
qed

text \<open>
  C1 as stated fails: for an object of input dimension 2, a \<open>min\<close> vector of length 1
  is not reported, the call returns true.
\<close>

theorem saveGridData_mismatch_counterexample:
  "int (length [0::real]) \<noteq>
     getExpectedInputDim
       \<lparr>clone = id, toString = fst, getExpectedInputDim = snd,
        toModelParametersUnified = (\<lambda>this. None :: unit option)\<rparr> (''lwr'', 2::int) \<and>
   fst (saveGridData (''lwr'', 2::int) [0] [1, 1] [3, 3] ''grid'' False
          \<lparr>files = (\<lambda>directory. Map.empty), streams = (\<lambda>output. \<lparr>written = '''', good = True, width = 0, fill = CHR '' '', adjust_left = False\<rparr>), evaluated = []\<rparr>) = True"
  by (simp add: saveGridData_def)

text \<open>
  C2. The default implementation of \<^verbatim>\<open>saveGridData\<close> is a no-op: whatever the
  object, the bounds, the sample counts, the directory and the overwrite flag are, it
  returns true, the files are as they were before the call, and nothing has been
  written to any stream.
\<close>

theorem saveGridData_default_noop:
  "fst (saveGridData this minv maxv n_samples_per_dim directory overwrite w) = True \<and>
   files (snd (saveGridData this minv maxv n_samples_per_dim directory overwrite w)) = files w \<and>
   streams (snd (saveGridData this minv maxv n_samples_per_dim directory overwrite w)) = streams w"
  by (simp add: saveGridData_def)

text \<open>
  C3, as the code has it. For an object of input dimension 2, the default
  \<^verbatim>\<open>saveGridData\<close> called with \<open>min = [0, 0]\<close>, \<open>max = [1, 1]\<close> and three samples
  per dimension on an empty directory returns true, and it computes no response: the
  inputs evaluated are those evaluated before the call. The claim's nine grid points
  are not visited by the default body.
\<close>

theorem saveGridData_grid_3x3_default:
  assumes "getExpectedInputDim cls this = 2"
    and "files w directory = Map.empty"
  shows "fst (saveGridData this [0, 0] [1, 1] [3, 3] directory overwrite w) = True \<and>
         evaluated (snd (saveGridData this [0, 0] [1, 1] [3, 3] directory overwrite w)) =
           evaluated w"
  unfolding saveGridData_def by simp

theorem saveGridData_grid_3x3_default_witness:
  "getExpectedInputDim
     \<lparr>clone = id, toString = fst, getExpectedInputDim = snd,
        toModelParametersUnified = (\<lambda>this. None :: unit option)\<rparr> (''lwr'', 2::int) = 2 \<and>
   files \<lparr>files = (\<lambda>directory. Map.empty), streams = (\<lambda>output. \<lparr>written = '''', good = True, width = 0, fill = CHR '' '', adjust_left = False\<rparr>), evaluated = []\<rparr> ''grid''
     = Map.empty \<and>
   fst (saveGridData (''lwr'', 2::int) [0, 0] [1, 1] [3, 3] ''grid'' False
          \<lparr>files = (\<lambda>directory. Map.empty), streams = (\<lambda>output. \<lparr>written = '''', good = True, width = 0, fill = CHR '' '', adjust_left = False\<rparr>), evaluated = []\<rparr>) = True \<and>
   evaluated (snd (saveGridData (''lwr'', 2::int) [0, 0] [1, 1] [3, 3] ''grid'' False
          \<lparr>files = (\<lambda>directory. Map.empty), streams = (\<lambda>output. \<lparr>written = '''', good = True, width = 0, fill = CHR '' '', adjust_left = False\<rparr>), evaluated = []\<rparr>)) = []"
proof -
  let ?cls = "\<lparr>clone = id, toString = fst, getExpectedInputDim = snd,
        toModelParametersUnified = (\<lambda>this. None :: unit option)\<rparr> :: (string \<times> int, unit) ModelParameters_vtable"
  let ?w = "\<lparr>files = (\<lambda>directory. Map.empty), streams = (\<lambda>output. \<lparr>written = '''', good = True, width = 0, fill = CHR '' '', adjust_left = False\<rparr>), evaluated = []\<rparr>"
  have dim: "getExpectedInputDim ?cls (''lwr'', 2::int) = 2"
    by simp
  have empty: "files ?w ''grid'' = Map.empty"
    by simp
  from saveGridData_grid_3x3_default [OF dim empty, of False] dim empty
  show ?thesis by simp
qed

text \<open>
  C3 as stated fails: after the call of the scenario, on a world where nothing had
  been evaluated, the number of evaluated grid points is not 9.
\<close>

theorem saveGridData_grid_3x3_counterexample:
  "getExpectedInputDim
     \<lparr>clone = id, toString = fst, getExpectedInputDim = snd,
        toModelParametersUnified = (\<lambda>this. None :: unit option)\<rparr> (''lwr'', 2::int) = 2 \<and>
   files \<lparr>files = (\<lambda>directory. Map.empty), streams = (\<lambda>output. \<lparr>written = '''', good = True, width = 0, fill = CHR '' '', adjust_left = False\<rparr>), evaluated = []\<rparr> ''grid''
     = Map.empty \<and>
   length (evaluated (snd (saveGridData (''lwr'', 2::int) [0, 0] [1, 1] [3, 3] ''grid'' False
          \<lparr>files = (\<lambda>directory. Map.empty), streams = (\<lambda>output. \<lparr>written = '''', good = True, width = 0, fill = CHR '' '', adjust_left = False\<rparr>), evaluated = []\<rparr>))) \<noteq> 9"
  by (simp add: saveGridData_def)

text \<open>
  C9. In its edge cases too (a vector whose length is not the expected input
  dimension; \<open>overwrite\<close> false and a directory that already holds files) the default
  \<^verbatim>\<open>saveGridData\<close> returns true and leaves the world, files included, as it was.
  No argument is validated: the result is the same for any other arguments.
\<close>

theorem saveGridData_default_edge_cases:
  assumes "int (length minv) \<noteq> getExpectedInputDim cls this \<or>
           int (length maxv) \<noteq> getExpectedInputDim cls this \<or>
           int (length n_samples_per_dim) \<noteq> getExpectedInputDim cls this \<or>
           (\<not> overwrite \<and> files w directory \<noteq> Map.empty)"
  shows "saveGridData this minv maxv n_samples_per_dim directory overwrite w = (True, w) \<and>
         saveGridData this minv maxv n_samples_per_dim directory overwrite w =
           saveGridData this minv' maxv' n_samples_per_dim' directory' overwrite' w"
  by (simp add: saveGridData_def)

theorem saveGridData_default_edge_cases_witness:
  "\<not> False \<and>
   files \<lparr>files = (\<lambda>directory. if directory = ''grid'' then [''n_samples_per_dim.txt'' \<mapsto> ''3 3''] else Map.empty),
      streams = (\<lambda>output. \<lparr>written = '''', good = True, width = 0, fill = CHR '' '', adjust_left = False\<rparr>), evaluated = []\<rparr> ''grid'' \<noteq> Map.empty \<and>
   int (length [0::real]) \<noteq> 2 \<and>
   saveGridData (''lwr'', 2::int) [0] [1, 1] [3, 3] ''grid'' False
     \<lparr>files = (\<lambda>directory. if directory = ''grid'' then [''n_samples_per_dim.txt'' \<mapsto> ''3 3''] else Map.empty),
      streams = (\<lambda>output. \<lparr>written = '''', good = True, width = 0, fill = CHR '' '', adjust_left = False\<rparr>), evaluated = []\<rparr>
   = (True,
      \<lparr>files = (\<lambda>directory. if directory = ''grid'' then [''n_samples_per_dim.txt'' \<mapsto> ''3 3''] else Map.empty),
      streams = (\<lambda>output. \<lparr>written = '''', good = True, width = 0, fill = CHR '' '', adjust_left = False\<rparr>), evaluated = []\<rparr>)"
proof -
  let ?cls = "\<lparr>clone = id, toString = fst, getExpectedInputDim = snd,
        toModelParametersUnified = (\<lambda>this. None :: unit option)\<rparr> :: (string \<times> int, unit) ModelParameters_vtable"
  let ?w = "\<lparr>files = (\<lambda>directory. if directory = ''grid'' then [''n_samples_per_dim.txt'' \<mapsto> ''3 3''] else Map.empty),
      streams = (\<lambda>output. \<lparr>written = '''', good = True, width = 0, fill = CHR '' '', adjust_left = False\<rparr>), evaluated = []\<rparr>"
  have present: "files ?w ''grid'' \<noteq> Map.empty"
    by (simp add: fun_eq_iff)
  have mismatch: "int (length [0::real]) \<noteq> getExpectedInputDim ?cls (''lwr'', 2::int)"
    by simp
  then have "int (length [0::real]) \<noteq> getExpectedInputDim ?cls (''lwr'', 2) \<or>
           int (length [1::real, 1]) \<noteq> getExpectedInputDim ?cls (''lwr'', 2) \<or>
           int (length [3::int, 3]) \<noteq> getExpectedInputDim ?cls (''lwr'', 2) \<or>
           (\<not> False \<and> files ?w ''grid'' \<noteq> Map.empty)"
    by simp
  from saveGridData_default_edge_cases [OF this] present mismatch
  show ?thesis by simp
qed

subsection \<open>The stream insertion operator\<close>




subsection \<open>Serialization\<close>

text \<open>
  C10. \<^verbatim>\<open>ModelParameters::serialize\<close> appends to the archive one named value, the
  \<^verbatim>\<open>Parameterizable\<close> portion of the object, and nothing of the class itself or of the
  subclass; the version argument has no influence; at the level the class is registered
  with, the archive adds no class version; and two objects with the same
  \<^verbatim>\<open>Parameterizable\<close> state give the same archive.
\<close>

theorem serialize_base_portion_only:
  assumes "parameterizable p = parameterizable q"
  shows "serialize_save save_Parameterizable ar version p =
           ar @ [NVP ''Parameterizable'' (save_Parameterizable (parameterizable p))] \<and>
         serialize_save save_Parameterizable ar version p =
           serialize_save save_Parameterizable ar version' q \<and>
         class_information ModelParameters_implementation_level ModelParameters_version = [] \<and>
         save_ModelParameters save_Parameterizable ar p =
           serialize_save save_Parameterizable ar version p \<and>
         save_ModelParameters save_Parameterizable ar p =
           save_ModelParameters save_Parameterizable ar q"
  using assms
  by (simp add: serialize_save_def save_ModelParameters_def class_information_def
      ModelParameters_implementation_level_def)

theorem serialize_base_portion_only_witness:
  "serialize_save (\<lambda>b. [Data b]) [] 0 \<lparr>parameterizable = ''mask'', \<dots> = (1::nat)\<rparr> =
     [NVP ''Parameterizable'' [Data ''mask'']] \<and>
   serialize_save (\<lambda>b. [Data b]) [] 7 \<lparr>parameterizable = ''mask'', \<dots> = True\<rparr> =
     [NVP ''Parameterizable'' [Data ''mask'']] \<and>
   save_ModelParameters (\<lambda>b. [Data b]) [] \<lparr>parameterizable = ''mask'', \<dots> = (1::nat)\<rparr> =
     [NVP ''Parameterizable'' [Data ''mask'']] \<and>
   save_ModelParameters (\<lambda>b. [Data b]) [] \<lparr>parameterizable = ''mask'', \<dots> = True\<rparr> =
     [NVP ''Parameterizable'' [Data ''mask'']]"
proof -
  have same: "parameterizable \<lparr>parameterizable = ''mask'', \<dots> = (1::nat)\<rparr> =
              parameterizable \<lparr>parameterizable = ''mask'', \<dots> = True\<rparr>"
    by simp
  from serialize_base_portion_only [OF same, of "\<lambda>b. [Data b]" "[]" 0 7]
  show ?thesis by auto
qed

section \<open>Properties of concrete subclasses\<close>

text \<open>
  C4. For every object of a subclass that defines no projection to the unified
  representation, \<^verbatim>\<open>toModelParametersUnified()\<close> returns the null pointer: no
  placeholder object, and a plain return.
\<close>

theorem toModelParametersUnified_absent:
  "toModelParametersUnified (concrete_subclass render input_dim None) this = None"
  by (simp add: concrete_subclass_def)

text \<open>
  C6. Cloning a live object \<open>p\<close> allocates an object \<open>q\<close> at another address, with
  the same \<^verbatim>\<open>toString()\<close>; the objects that were live are untouched, and afterwards
  assigning any state to \<open>q\<close> leaves \<open>p\<close> as it is, and assigning any state to \<open>p\<close>
  leaves \<open>q\<close> as it is.
\<close>

theorem clone_independent_copy:
  assumes "p < length heap"
  shows "\<exists>q heap'.
           clone_object (concrete_subclass render input_dim projection) p heap = Some (q, heap') \<and>
           q \<noteq> p \<and> q < length heap' \<and> p < length heap' \<and>
           take (length heap) heap' = heap \<and>
           toString (concrete_subclass render input_dim projection) (heap' ! q) =
             toString (concrete_subclass render input_dim projection) (heap' ! p) \<and>
           (\<forall>s. heap'[q := s] ! p = heap' ! p) \<and>
           (\<forall>s. heap'[p := s] ! q = heap' ! q)"
  using assms
  by (simp add: clone_object_def concrete_subclass_def nth_append)

theorem clone_independent_copy_witness:
  "(1::nat) < length [''a'', ''b''] \<and>
   (\<exists>q heap'.
      clone_object (concrete_subclass id length (None :: (string \<Rightarrow> unit) option)) 1 [''a'', ''b''] =
        Some (q, heap') \<and>
      q \<noteq> 1 \<and>
      toString (concrete_subclass id length (None :: (string \<Rightarrow> unit) option)) (heap' ! q) = ''b'' \<and>
      heap'[q := ''c''] ! 1 = ''b'')"
proof -
  have live: "(1::nat) < length [''a'', ''b'']"
    by simp
  from clone_independent_copy [OF live, of id length "None :: (string \<Rightarrow> unit) option"]
  obtain q heap' where
    c: "clone_object (concrete_subclass id length (None :: (string \<Rightarrow> unit) option)) 1 [''a'', ''b''] =
        Some (q, heap')"
    and q: "q \<noteq> 1"
    and keep: "take (length [''a'', ''b'']) heap' = [''a'', ''b'']"
    and lens: "q < length heap'" "1 < length heap'"
    and same: "toString (concrete_subclass id length (None :: (string \<Rightarrow> unit) option)) (heap' ! q) =
             toString (concrete_subclass id length (None :: (string \<Rightarrow> unit) option)) (heap' ! 1)"
    and indep: "\<forall>s. heap'[q := s] ! 1 = heap' ! 1"
    by blast
  from keep lens have "heap' ! 1 = ''b''"
    by (metis live nth_take nth_Cons_0 nth_Cons_Suc One_nat_def)
  with c q same indep live show ?thesis
    by (auto simp: concrete_subclass_def)
qed

end
